theory Spec2Isabelle
  imports Main
begin

section \<open>Python strings and values\<close>

text \<open>
  A Python \<open>str\<close> is modelled as a \<open>string\<close> whose characters are read as the code
  points below 256. \<open>str.strip()\<close> removes the white space characters of that range
  from both ends; \<open>str.lower()\<close> maps the upper-case letters of that range to their
  lower-case partners.
\<close>

definition isspace :: "char \<Rightarrow> bool" where
  "isspace c = ((of_char c :: nat) \<in> {9, 10, 11, 12, 13, 28, 29, 30, 31, 32, 133, 160})"

definition strip :: "string \<Rightarrow> string" where
  "strip s = rev (dropWhile isspace (rev (dropWhile isspace s)))"

definition lower_char :: "char \<Rightarrow> char" where
  "lower_char c =
     (let n = (of_char c :: nat)
      in if (65 \<le> n \<and> n \<le> 90) \<or> (192 \<le> n \<and> n \<le> 222 \<and> n \<noteq> 215)
         then char_of (n + 32) else c)"

definition lower :: "string \<Rightarrow> string" where
  "lower s = map lower_char s"

text \<open>
  The values a price takes in the program: a Python \<open>int\<close> or a \<open>str\<close>. Python's
  \<open>None\<close> is the \<open>None\<close> of an option type around it.
\<close>

datatype pyval = IntV int | StrV string

text \<open>
  \<open>int(s)\<close> on a stripped string, base 10: an optional sign, then decimal digits in
  which single underscores may separate digits. Anything else raises \<open>ValueError\<close>,
  which is the result \<open>None\<close> here. (The interpreter's configurable cap on the number
  of digits of a literal is not modelled.)
\<close>

definition isdigit :: "char \<Rightarrow> bool" where
  "isdigit c = (48 \<le> (of_char c :: nat) \<and> (of_char c :: nat) \<le> 57)"

definition digit_val :: "char \<Rightarrow> nat" where
  "digit_val c = of_char c - 48"

fun nat_of_digits :: "nat \<Rightarrow> string \<Rightarrow> nat" where
  "nat_of_digits acc [] = acc"
| "nat_of_digits acc (c # cs) = nat_of_digits (10 * acc + digit_val c) cs"

fun grouped_digits :: "string \<Rightarrow> bool" where
  "grouped_digits [] = False"
| "grouped_digits [c] = isdigit c"
| "grouped_digits (c # d # cs) =
     (isdigit c \<and> (if d = CHR ''_'' then grouped_digits cs else grouped_digits (d # cs)))"

definition py_int :: "string \<Rightarrow> int option" where
  "py_int s =
     (let (neg, body) =
            (case s of
               c # r \<Rightarrow> if c = CHR ''-'' then (True, r)
                        else if c = CHR ''+'' then (False, r) else (False, s)
             | [] \<Rightarrow> (False, s))
      in if grouped_digits body
         then (let n = int (nat_of_digits 0 (filter (\<lambda>c. c \<noteq> CHR ''_'') body))
               in Some (if neg then - n else n))
         else None)"

text \<open>\<open>str(n)\<close> for a Python \<open>int\<close>: the decimal digits, with a minus sign when negative.\<close>

definition digit_char :: "nat \<Rightarrow> char" where
  "digit_char d = char_of (48 + d)"

fun str_nat :: "nat \<Rightarrow> string" where
  "str_nat n = (if n < 10 then [digit_char n] else str_nat (n div 10) @ [digit_char (n mod 10)])"

declare str_nat.simps [simp del]

definition str_int :: "int \<Rightarrow> string" where
  "str_int i = (if i < 0 then CHR ''-'' # str_nat (nat (- i)) else str_nat (nat i))"

section \<open>The assignment prompt of the line-oriented front-end\<close>

text \<open>
  \<open>get_team_and_price\<close> of \<open>auction.py\<close>. The two arguments are the lines the two
  \<open>input()\<close> calls return; the second line is read only when the team is not skipped.
\<close>

definition is_skip :: "string \<Rightarrow> bool" where
  "is_skip team = (team = [] \<or> lower team \<in> {''salta'', ''skip''})"

definition get_team_and_price :: "string \<Rightarrow> string \<Rightarrow> string option \<times> pyval option" where
  "get_team_and_price line1 line2 =
     (let team = strip line1
      in if is_skip team then (None, None)
         else (let price_str = strip line2;
                   price = (if price_str \<noteq> []
                            then (case py_int price_str of
                                    Some n \<Rightarrow> IntV n
                                  | None \<Rightarrow> StrV price_str)
                            else IntV 0)
               in (Some team, Some price)))"

section \<open>Lists indexed the way Python indexes them\<close>

text \<open>An index below zero counts from the end; an index outside the list raises.\<close>

datatype error = IndexError | NoRiders | CsvError | FileNotFound

definition getitem :: "'a list \<Rightarrow> int \<Rightarrow> error + 'a" where
  "getitem xs i =
     (if 0 \<le> i \<and> i < int (length xs) then Inr (xs ! nat i)
      else if i < 0 \<and> - int (length xs) \<le> i then Inr (xs ! nat (int (length xs) + i))
      else Inl IndexError)"

definition setitem :: "'a list \<Rightarrow> int \<Rightarrow> 'a \<Rightarrow> error + 'a list" where
  "setitem xs i v =
     (if 0 \<le> i \<and> i < int (length xs) then Inr (xs[nat i := v])
      else if i < 0 \<and> - int (length xs) \<le> i then Inr (xs[nat (int (length xs) + i) := v])
      else Inl IndexError)"

section \<open>Session state\<close>

text \<open>
  One entry of \<open>results\<close> is the dictionary \<open>{'team': ..., 'price': ...}\<close>; both keys are
  always present, so it is a record of two optional fields.
\<close>

record assignment =
  team :: "string option"
  price :: "pyval option"

text \<open>
  What the operator does: a key press, together with the text typed at the prompts when
  the key opens them. \<open>OtherKey\<close> is any key without a meaning.
\<close>

datatype action = MoveUp | MoveDown | Assign string string | Quit | OtherKey

text \<open>
  \<open>Confirm\<close> is the line-oriented front-end waiting for a key after an assignment at the
  last rider; \<open>Ended\<close> is the loop left (or the application exited).
\<close>

datatype phase = Active | Confirm | Ended

record session =
  current_index :: int
  results :: "assignment list"
  phase :: phase

definition init_results :: "'a list \<Rightarrow> assignment list" where
  "init_results riders = map (\<lambda>_. \<lparr>team = None, price = None\<rparr>) riders"

definition init_session :: "'a list \<Rightarrow> session" where
  "init_session riders = \<lparr>current_index = 0, results = init_results riders, phase = Active\<rparr>"

section \<open>The line-oriented front-end (\<open>auction.py\<close>)\<close>

text \<open>
  One pass through the body of the \<open>while True\<close> loop of \<open>main\<close>, for the key read in
  that pass. The loop first reads \<open>riders[current_index]\<close> and
  \<open>results[current_index]\<close> for the display.
\<close>

definition loop_body :: "string list \<Rightarrow> action \<Rightarrow> session \<Rightarrow> error + session" where
  "loop_body riders key s =
     (let total = int (length riders); i = current_index s
      in case getitem riders i of
           Inl e \<Rightarrow> Inl e
         | Inr rider \<Rightarrow>
             (case getitem (results s) i of
                Inl e \<Rightarrow> Inl e
              | Inr cur \<Rightarrow>
                  (case key of
                     MoveUp \<Rightarrow> Inr (if i > 0 then s\<lparr>current_index := i - 1\<rparr> else s)
                   | MoveDown \<Rightarrow>
                       Inr (if i < total - 1 then s\<lparr>current_index := i + 1\<rparr> else s)
                   | Assign line1 line2 \<Rightarrow>
                       (let (t, p) = get_team_and_price line1 line2
                        in case setitem (results s) i (cur\<lparr>team := t, price := p\<rparr>) of
                             Inl e \<Rightarrow> Inl e
                           | Inr rs \<Rightarrow>
                               Inr (if i < total - 1
                                    then s\<lparr>current_index := i + 1, results := rs\<rparr>
                                    else s\<lparr>results := rs, phase := Confirm\<rparr>))
                   | Quit \<Rightarrow> Inr (s\<lparr>phase := Ended\<rparr>)
                   | OtherKey \<Rightarrow> Inr s)))"

text \<open>
  A key press in any phase: after an assignment at the last rider the next key is read
  by the inner \<open>readkey\<close>, where \<open>q\<close> leaves the loop and anything else goes on.
\<close>

definition cli_step :: "string list \<Rightarrow> action \<Rightarrow> session \<Rightarrow> error + session" where
  "cli_step riders key s =
     (case phase s of
        Ended \<Rightarrow> Inr s
      | Confirm \<Rightarrow> Inr (if key = Quit then s\<lparr>phase := Ended\<rparr> else s\<lparr>phase := Active\<rparr>)
      | Active \<Rightarrow> loop_body riders key s)"

fun cli_run :: "string list \<Rightarrow> action list \<Rightarrow> session \<Rightarrow> error + session" where
  "cli_run riders [] s = Inr s"
| "cli_run riders (k # ks) s =
     (case cli_step riders k s of Inl e \<Rightarrow> Inl e | Inr s' \<Rightarrow> cli_run riders ks s')"

text \<open>\<open>main\<close> up to the end of the loop: no session starts on an empty rider list.\<close>

definition main_session :: "string list \<Rightarrow> action list \<Rightarrow> error + session" where
  "main_session riders keys =
     (if length riders = 0 then Inl NoRiders else cli_run riders keys (init_session riders))"

section \<open>The widget-based front-end (\<open>auction_tui_backup.py\<close>)\<close>

text \<open>A rider is a plain string or a dictionary with a name and a reference value.\<close>

datatype 'v rider = RiderStr string | RiderDict string "'v option"

fun rider_name :: "'v rider \<Rightarrow> string" where
  "rider_name (RiderStr n) = n"
| "rider_name (RiderDict n v) = n"

text \<open>\<open>_update_display\<close>: only its two indexed reads can fail.\<close>

definition update_display :: "'v rider list \<Rightarrow> session \<Rightarrow> error + unit" where
  "update_display riders s =
     (case getitem riders (current_index s) of
        Inl e \<Rightarrow> Inl e
      | Inr rider \<Rightarrow>
          (case getitem (results s) (current_index s) of
             Inl e \<Rightarrow> Inl e
           | Inr result \<Rightarrow> Inr ()))"

text \<open>Storing to the reactive \<open>current_index\<close> runs \<open>watch_current_index\<close>.\<close>

definition set_current_index :: "'v rider list \<Rightarrow> int \<Rightarrow> session \<Rightarrow> error + session" where
  "set_current_index riders v s =
     (let s' = s\<lparr>current_index := v\<rparr>
      in case update_display riders s' of Inl e \<Rightarrow> Inl e | Inr u \<Rightarrow> Inr s')"

definition action_previous_rider :: "'v rider list \<Rightarrow> session \<Rightarrow> error + session" where
  "action_previous_rider riders s =
     (if current_index s > 0 then set_current_index riders (current_index s - 1) s else Inr s)"

definition action_next_rider :: "'v rider list \<Rightarrow> session \<Rightarrow> error + session" where
  "action_next_rider riders s =
     (if current_index s < int (length riders) - 1
      then set_current_index riders (current_index s + 1) s else Inr s)"

text \<open>\<open>AssignmentModal._confirm\<close>: what the dialog is dismissed with.\<close>

definition confirm :: "string \<Rightarrow> string \<Rightarrow> (string \<times> string) option" where
  "confirm team_input price_input =
     (let team = strip team_input; price = strip price_input
      in if team \<noteq> [] then Some (team, price) else None)"

definition handle_assignment ::
  "'v rider list \<Rightarrow> (string \<times> string) option \<Rightarrow> session \<Rightarrow> error + session" where
  "handle_assignment riders result s =
     (case result of
        None \<Rightarrow> Inr s
      | Some (t, p) \<Rightarrow>
          (let i = current_index s
           in case getitem (results s) i of
                Inl e \<Rightarrow> Inl e
              | Inr cur \<Rightarrow>
                  (case setitem (results s) i (cur\<lparr>team := Some t, price := Some (StrV p)\<rparr>) of
                     Inl e \<Rightarrow> Inl e
                   | Inr rs \<Rightarrow>
                       (let s' = s\<lparr>results := rs\<rparr>
                        in case update_display riders s' of
                             Inl e \<Rightarrow> Inl e
                           | Inr u \<Rightarrow>
                               if i < int (length riders) - 1
                               then set_current_index riders (i + 1) s'
                               else Inr s'))))"

text \<open>\<open>action_assign\<close> with the dialog confirmed on the two typed texts.\<close>

definition action_assign ::
  "'v rider list \<Rightarrow> string \<Rightarrow> string \<Rightarrow> session \<Rightarrow> error + session" where
  "action_assign riders team_input price_input s =
     (case getitem riders (current_index s) of
        Inl e \<Rightarrow> Inl e
      | Inr rider \<Rightarrow> handle_assignment riders (confirm team_input price_input) s)"

definition tui_step :: "'v rider list \<Rightarrow> action \<Rightarrow> session \<Rightarrow> error + session" where
  "tui_step riders key s =
     (if phase s = Ended then Inr s
      else case key of
             MoveUp \<Rightarrow> action_previous_rider riders s
           | MoveDown \<Rightarrow> action_next_rider riders s
           | Assign team_input price_input \<Rightarrow> action_assign riders team_input price_input s
           | Quit \<Rightarrow> Inr (s\<lparr>phase := Ended\<rparr>)
           | OtherKey \<Rightarrow> Inr s)"

fun tui_run :: "'v rider list \<Rightarrow> action list \<Rightarrow> session \<Rightarrow> error + session" where
  "tui_run riders [] s = Inr s"
| "tui_run riders (k # ks) s =
     (case tui_step riders k s of Inl e \<Rightarrow> Inl e | Inr s' \<Rightarrow> tui_run riders ks s')"

text \<open>
  \<open>main\<close> of the widget-based front-end up to the exit of the application; mounting the
  application runs \<open>_update_display\<close> once.
\<close>

definition tui_session :: "'v rider list \<Rightarrow> action list \<Rightarrow> error + session" where
  "tui_session riders keys =
     (if length riders = 0 then Inl NoRiders
      else case update_display riders (init_session riders) of
             Inl e \<Rightarrow> Inl e
           | Inr u \<Rightarrow> tui_run riders keys (init_session riders))"

section \<open>Writing delimited text\<close>

text \<open>
  \<open>csv.writer\<close> in its default dialect: comma, double quote, quotes doubled, a field
  quoted only when it holds the delimiter, the quote character or a character of the
  line terminator, and every row ended by carriage return and line feed.
\<close>

definition DQ :: char where "DQ = CHR 0x22"
definition CR :: char where "CR = CHR 0x0D"
definition LF :: char where "LF = CHR 0x0A"
definition COMMA :: char where "COMMA = CHR '',''"

definition needs_quoting :: "string \<Rightarrow> bool" where
  "needs_quoting data = (\<exists>c \<in> set data. c = COMMA \<or> c = DQ \<or> c = CR \<or> c = LF)"

definition double_quotes :: "string \<Rightarrow> string" where
  "double_quotes data = concat (map (\<lambda>c. if c = DQ then [DQ, DQ] else [c]) data)"

definition quote_field :: "string \<Rightarrow> string" where
  "quote_field data =
     (if needs_quoting data then DQ # double_quotes data @ [DQ] else data)"

fun join_fields :: "string list \<Rightarrow> string" where
  "join_fields [] = []"
| "join_fields [f] = f"
| "join_fields (f # g # fs) = f @ COMMA # join_fields (g # fs)"

definition writerow :: "string list \<Rightarrow> string" where
  "writerow row =
     (let rec = join_fields (map quote_field row)
      in (if row \<noteq> [] \<and> rec = [] then [DQ, DQ] else rec) @ [CR, LF])"

text \<open>A cell that is not a string is written as \<open>str\<close> of it.\<close>

fun csv_str :: "pyval \<Rightarrow> string" where
  "csv_str (StrV s) = s"
| "csv_str (IntV n) = str_int n"

section \<open>Exporting the results\<close>

text \<open>
  \<open>team if team else ''\<close> and \<open>price if price else ''\<close>: \<open>None\<close>, the empty string and
  the integer 0 are the false values.
\<close>

fun team_cell :: "string option \<Rightarrow> string" where
  "team_cell None = []"
| "team_cell (Some t) = (if t \<noteq> [] then t else [])"

fun price_cell :: "pyval option \<Rightarrow> pyval" where
  "price_cell None = StrV []"
| "price_cell (Some (IntV n)) = (if n \<noteq> 0 then IntV n else StrV [])"
| "price_cell (Some (StrV p)) = (if p \<noteq> [] then StrV p else StrV [])"

text \<open>The rows of the \<open>for i, rider in enumerate(riders)\<close> loop, from index \<open>i\<close> on.\<close>

fun result_rows :: "assignment list \<Rightarrow> string list \<Rightarrow> int \<Rightarrow> error + string list list" where
  "result_rows res [] i = Inr []"
| "result_rows res (rider # rest) i =
     (case getitem res i of
        Inl e \<Rightarrow> Inl e
      | Inr r \<Rightarrow>
          (case result_rows res rest (i + 1) of
             Inl e \<Rightarrow> Inl e
           | Inr rows \<Rightarrow>
               Inr ([rider, team_cell (team r), csv_str (price_cell (price r))] # rows)))"

definition header :: "string list" where
  "header = [''Corridore'', ''Squadra'', ''Prezzo'']"

text \<open>\<open>save_results\<close> of \<open>auction.py\<close>: the text written to the output file.\<close>

definition save_results :: "assignment list \<Rightarrow> string list \<Rightarrow> error + string" where
  "save_results res riders =
     (case result_rows res riders 0 of
        Inl e \<Rightarrow> Inl e
      | Inr rows \<Rightarrow> Inr (concat (map writerow (header # rows))))"

text \<open>\<open>save_results\<close> of \<open>auction_tui_backup.py\<close>, which takes the name out of a rider.\<close>

fun tui_result_rows ::
  "assignment list \<Rightarrow> 'v rider list \<Rightarrow> int \<Rightarrow> error + string list list" where
  "tui_result_rows res [] i = Inr []"
| "tui_result_rows res (rider # rest) i =
     (case getitem res i of
        Inl e \<Rightarrow> Inl e
      | Inr r \<Rightarrow>
          (case tui_result_rows res rest (i + 1) of
             Inl e \<Rightarrow> Inl e
           | Inr rows \<Rightarrow>
               Inr ([rider_name rider, team_cell (team r), csv_str (price_cell (price r))]
                    # rows)))"

definition tui_save_results :: "assignment list \<Rightarrow> 'v rider list \<Rightarrow> error + string" where
  "tui_save_results res riders =
     (case tui_result_rows res riders 0 of
        Inl e \<Rightarrow> Inl e
      | Inr rows \<Rightarrow> Inr (concat (map writerow (header # rows))))"

section \<open>Files and the name of the output file\<close>

text \<open>
  The directory the program runs in: the files that exist, each with its content.
  Opening a name for writing creates the file or replaces its content.
\<close>

type_synonym filesystem = "(string \<times> string) list"

definition path_exists :: "filesystem \<Rightarrow> string \<Rightarrow> bool" where
  "path_exists fs p = (p \<in> fst ` set fs)"

definition read_file :: "filesystem \<Rightarrow> string \<Rightarrow> string option" where
  "read_file fs p = map_of fs p"

definition write_file :: "filesystem \<Rightarrow> string \<Rightarrow> string \<Rightarrow> filesystem" where
  "write_file fs p text = (p, text) # filter (\<lambda>(q, t). q \<noteq> p) fs"

text \<open>
  The \<open>while True\<close> loop of \<open>get_unique_output_file\<close>; the counter is rendered as
  \<open>str\<close> renders a non-negative \<open>int\<close>. A loop that never finds a free name has no
  result, which is \<open>None\<close>.
\<close>

partial_function (option) next_free :: "string \<Rightarrow> filesystem \<Rightarrow> nat \<Rightarrow> string option" where
  "next_free base_name fs counter =
     (let output_file = base_name @ ''_auction_results_'' @ str_nat counter @ ''.csv''
      in if \<not> path_exists fs output_file then Some output_file
         else next_free base_name fs (counter + 1))"

declare next_free.simps [code]

definition get_unique_output_file :: "string \<Rightarrow> filesystem \<Rightarrow> string option" where
  "get_unique_output_file base_name fs =
     (let output_file = base_name @ ''_auction_results.csv''
      in if \<not> path_exists fs output_file then Some output_file
         else next_free base_name fs 1)"

text \<open>
  \<open>main\<close> of \<open>auction.py\<close> from the base name of the input file on: the session, then
  the export once the loop is left. While the loop is still waiting for a key nothing
  has been written.
\<close>

definition main :: "string \<Rightarrow> string list \<Rightarrow> action list \<Rightarrow> filesystem \<Rightarrow> error + filesystem" where
  "main base_name riders keys fs =
     (let output_file = base_name @ ''_auction_results.csv''
      in case main_session riders keys of
           Inl e \<Rightarrow> Inl e
         | Inr s \<Rightarrow>
             if phase s = Ended
             then (case save_results (results s) riders of
                     Inl e \<Rightarrow> Inl e
                   | Inr text \<Rightarrow> Inr (write_file fs output_file text))
             else Inr fs)"

text \<open>
  \<open>main\<close> of \<open>auction_tui_backup.py\<close>: the output name is chosen before the session
  starts, and \<open>action_save_quit\<close> writes to it.
\<close>

definition tui_main ::
  "string \<Rightarrow> 'v rider list \<Rightarrow> action list \<Rightarrow> filesystem \<Rightarrow> (error + filesystem) option" where
  "tui_main base_name riders keys fs =
     (case get_unique_output_file base_name fs of
        None \<Rightarrow> None
      | Some output_file \<Rightarrow>
          Some (case tui_session riders keys of
                  Inl e \<Rightarrow> Inl e
                | Inr s \<Rightarrow>
                    if phase s = Ended
                    then (case tui_save_results (results s) riders of
                            Inl e \<Rightarrow> Inl e
                          | Inr text \<Rightarrow> Inr (write_file fs output_file text))
                    else Inr fs))"

section \<open>Reading delimited text\<close>

text \<open>
  A file opened for reading in text mode hands out its content with every carriage
  return plus line feed, and every lone carriage return, turned into a line feed, one
  line at a time, each line with its line feed.
\<close>

fun universal_newlines :: "string \<Rightarrow> string" where
  "universal_newlines [] = []"
| "universal_newlines [c] = [if c = CR then LF else c]"
| "universal_newlines (c # d # cs) =
     (if c = CR
      then (if d = LF then LF # universal_newlines cs else LF # universal_newlines (d # cs))
      else c # universal_newlines (d # cs))"

fun file_lines :: "string \<Rightarrow> string list" where
  "file_lines [] = []"
| "file_lines (c # cs) =
     (if c = LF then [c] # file_lines cs
      else (case file_lines cs of [] \<Rightarrow> [[c]] | l # ls \<Rightarrow> (c # l) # ls))"

text \<open>
  \<open>csv.reader\<close> in its default dialect (comma, double quote, doubled quotes, not
  strict, no escape character): the parser's states, its record under construction and
  the field under construction. The states that only an escape character reaches are
  left out. A field may grow to \<open>field_limit\<close> characters.
\<close>

datatype parser_state =
  START_RECORD | START_FIELD | IN_FIELD | IN_QUOTED_FIELD | QUOTE_IN_QUOTED_FIELD | EAT_CRNL

record reader =
  state :: parser_state
  parsed_fields :: "string list"
  field :: string

definition field_limit :: nat where
  "field_limit = 131072"

definition parse_reset :: reader where
  "parse_reset = \<lparr>state = START_RECORD, parsed_fields = [], field = []\<rparr>"

definition parse_save_field :: "reader \<Rightarrow> reader" where
  "parse_save_field r = r\<lparr>parsed_fields := parsed_fields r @ [field r], field := []\<rparr>"

definition parse_add_char :: "reader \<Rightarrow> char \<Rightarrow> error + reader" where
  "parse_add_char r c =
     (if length (field r) \<ge> field_limit then Inl CsvError
      else Inr (r\<lparr>field := field r @ [c]\<rparr>))"

text \<open>The parser's step on one character; the end of a line is \<open>None\<close>.\<close>

definition start_field :: "reader \<Rightarrow> char option \<Rightarrow> error + reader" where
  "start_field r c =
     (case c of
        None \<Rightarrow> Inr ((parse_save_field r)\<lparr>state := START_RECORD\<rparr>)
      | Some ch \<Rightarrow>
          if ch = LF \<or> ch = CR then Inr ((parse_save_field r)\<lparr>state := EAT_CRNL\<rparr>)
          else if ch = DQ then Inr (r\<lparr>state := IN_QUOTED_FIELD\<rparr>)
          else if ch = COMMA then Inr (parse_save_field r)
          else (case parse_add_char r ch of
                  Inl e \<Rightarrow> Inl e
                | Inr r' \<Rightarrow> Inr (r'\<lparr>state := IN_FIELD\<rparr>)))"

definition parse_process_char :: "reader \<Rightarrow> char option \<Rightarrow> error + reader" where
  "parse_process_char r c =
     (case state r of
        START_RECORD \<Rightarrow>
          (case c of
             None \<Rightarrow> Inr r
           | Some ch \<Rightarrow>
               if ch = LF \<or> ch = CR then Inr (r\<lparr>state := EAT_CRNL\<rparr>)
               else start_field (r\<lparr>state := START_FIELD\<rparr>) c)
      | START_FIELD \<Rightarrow> start_field r c
      | IN_FIELD \<Rightarrow>
          (case c of
             None \<Rightarrow> Inr ((parse_save_field r)\<lparr>state := START_RECORD\<rparr>)
           | Some ch \<Rightarrow>
               if ch = LF \<or> ch = CR then Inr ((parse_save_field r)\<lparr>state := EAT_CRNL\<rparr>)
               else if ch = COMMA then Inr ((parse_save_field r)\<lparr>state := START_FIELD\<rparr>)
               else parse_add_char r ch)
      | IN_QUOTED_FIELD \<Rightarrow>
          (case c of
             None \<Rightarrow> Inr r
           | Some ch \<Rightarrow>
               if ch = DQ then Inr (r\<lparr>state := QUOTE_IN_QUOTED_FIELD\<rparr>)
               else parse_add_char r ch)
      | QUOTE_IN_QUOTED_FIELD \<Rightarrow>
          (case c of
             None \<Rightarrow> Inr ((parse_save_field r)\<lparr>state := START_RECORD\<rparr>)
           | Some ch \<Rightarrow>
               if ch = DQ
               then (case parse_add_char r ch of
                       Inl e \<Rightarrow> Inl e
                     | Inr r' \<Rightarrow> Inr (r'\<lparr>state := IN_QUOTED_FIELD\<rparr>))
               else if ch = COMMA then Inr ((parse_save_field r)\<lparr>state := START_FIELD\<rparr>)
               else if ch = LF \<or> ch = CR
               then Inr ((parse_save_field r)\<lparr>state := EAT_CRNL\<rparr>)
               else (case parse_add_char r ch of
                       Inl e \<Rightarrow> Inl e
                     | Inr r' \<Rightarrow> Inr (r'\<lparr>state := IN_FIELD\<rparr>)))
      | EAT_CRNL \<Rightarrow>
          (case c of
             None \<Rightarrow> Inr (r\<lparr>state := START_RECORD\<rparr>)
           | Some ch \<Rightarrow> if ch = LF \<or> ch = CR then Inr r else Inl CsvError))"

fun process_chars :: "reader \<Rightarrow> string \<Rightarrow> error + reader" where
  "process_chars r [] = Inr r"
| "process_chars r (c # cs) =
     (case parse_process_char r (Some c) of
        Inl e \<Rightarrow> Inl e
      | Inr r' \<Rightarrow> process_chars r' cs)"

definition process_line :: "reader \<Rightarrow> string \<Rightarrow> error + reader" where
  "process_line r l =
     (case process_chars r l of Inl e \<Rightarrow> Inl e | Inr r' \<Rightarrow> parse_process_char r' None)"

text \<open>
  The records the reader yields from the lines left: a record is complete when a line
  leaves the parser at the start of a record; at the end of the input an unfinished
  record is yielded as it stands.
\<close>

fun reader_rows :: "reader \<Rightarrow> string list \<Rightarrow> error + string list list" where
  "reader_rows r [] =
     (if field r \<noteq> [] \<or> state r = IN_QUOTED_FIELD
      then Inr [parsed_fields (parse_save_field r)] else Inr [])"
| "reader_rows r (l # ls) =
     (case process_line r l of
        Inl e \<Rightarrow> Inl e
      | Inr r' \<Rightarrow>
          if state r' = START_RECORD
          then (case reader_rows parse_reset ls of
                  Inl e \<Rightarrow> Inl e
                | Inr rows \<Rightarrow> Inr (parsed_fields r' # rows))
          else reader_rows r' ls)"

text \<open>\<open>read_riders_from_csv\<close> of \<open>auction.py\<close>.\<close>

fun first_columns :: "string list list \<Rightarrow> string list" where
  "first_columns [] = []"
| "first_columns (row # rows) =
     (case row of
        [] \<Rightarrow> first_columns rows
      | f # fs \<Rightarrow> if strip f \<noteq> [] then strip f # first_columns rows
                 else first_columns rows)"

definition read_riders_from_csv :: "filesystem \<Rightarrow> string \<Rightarrow> error + string list" where
  "read_riders_from_csv fs filepath =
     (case read_file fs filepath of
        None \<Rightarrow> Inl FileNotFound
      | Some content \<Rightarrow>
          (case reader_rows parse_reset (file_lines (universal_newlines content)) of
             Inl e \<Rightarrow> Inl e
           | Inr rows \<Rightarrow> Inr (first_columns rows)))"

section \<open>Notions used in the statements\<close>

text \<open>A session over \<open>riders\<close> whose cursor and results table fit the rider list.\<close>

definition in_range :: "'a list \<Rightarrow> session \<Rightarrow> bool" where
  "in_range riders s =
     (0 \<le> current_index s \<and> current_index s < int (length riders)
      \<and> length (results s) = length riders)"

definition unassigned :: assignment where
  "unassigned = \<lparr>team = None, price = None\<rparr>"

text \<open>
  What the line-oriented front-end makes of a stripped price text, and the same reading
  applied to a stored price.
\<close>

definition price_of_text :: "string \<Rightarrow> pyval" where
  "price_of_text p =
     (if p = [] then IntV 0 else case py_int p of Some n \<Rightarrow> IntV n | None \<Rightarrow> StrV p)"






section \<open>Properties of the session\<close>

lemma getitem_in_range:
  "0 \<le> i \<Longrightarrow> i < int (length xs) \<Longrightarrow> getitem xs i = Inr (xs ! nat i)"
  by (simp add: getitem_def)

lemma setitem_in_range:
  "0 \<le> i \<Longrightarrow> i < int (length xs) \<Longrightarrow> setitem xs i v = Inr (xs[nat i := v])"
  by (simp add: setitem_def)

lemma in_range_init: "riders \<noteq> [] \<Longrightarrow> in_range riders (init_session riders)"
  by (simp add: in_range_def init_session_def init_results_def)

lemma assignment_update_all: "(r :: assignment)\<lparr>team := t, price := p\<rparr> = \<lparr>team = t, price = p\<rparr>"
  by (cases r) simp

lemma loop_body_move_up:
  "in_range riders s \<Longrightarrow>
   loop_body riders MoveUp s =
     Inr (if current_index s > 0 then s\<lparr>current_index := current_index s - 1\<rparr> else s)"
  by (simp add: loop_body_def in_range_def getitem_in_range)

lemma loop_body_move_down:
  "in_range riders s \<Longrightarrow>
   loop_body riders MoveDown s =
     Inr (if current_index s < int (length riders) - 1
          then s\<lparr>current_index := current_index s + 1\<rparr> else s)"
  by (simp add: loop_body_def in_range_def getitem_in_range)

lemma loop_body_assign:
  "in_range riders s \<Longrightarrow>
   loop_body riders (Assign line1 line2) s =
     (let rs = (results s)[nat (current_index s) :=
                  \<lparr>team = fst (get_team_and_price line1 line2),
                   price = snd (get_team_and_price line1 line2)\<rparr>]
      in Inr (if current_index s < int (length riders) - 1
              then s\<lparr>current_index := current_index s + 1, results := rs\<rparr>
              else s\<lparr>results := rs, phase := Confirm\<rparr>))"
  by (simp add: loop_body_def in_range_def getitem_in_range setitem_in_range
      assignment_update_all Let_def case_prod_beta)




lemma update_display_in_range: "in_range riders s \<Longrightarrow> update_display riders s = Inr ()"
  by (simp add: update_display_def in_range_def getitem_in_range)

lemma set_current_index_in_range:
  "length (results s) = length riders \<Longrightarrow> 0 \<le> v \<Longrightarrow> v < int (length riders) \<Longrightarrow>
   set_current_index riders v s = Inr (s\<lparr>current_index := v\<rparr>)"
  by (simp add: set_current_index_def Let_def update_display_in_range in_range_def)

lemma action_previous_rider_in_range:
  "in_range riders s \<Longrightarrow>
   action_previous_rider riders s =
     Inr (if current_index s > 0 then s\<lparr>current_index := current_index s - 1\<rparr> else s)"
  by (simp add: action_previous_rider_def set_current_index_in_range in_range_def)

lemma action_next_rider_in_range:
  "in_range riders s \<Longrightarrow>
   action_next_rider riders s =
     Inr (if current_index s < int (length riders) - 1
          then s\<lparr>current_index := current_index s + 1\<rparr> else s)"
  by (simp add: action_next_rider_def set_current_index_in_range in_range_def)

lemma handle_assignment_None: "handle_assignment riders None s = Inr s"
  by (simp add: handle_assignment_def)

lemma handle_assignment_Some:
  "in_range riders s \<Longrightarrow>
   handle_assignment riders (Some (t, p)) s =
     (let rs = (results s)[nat (current_index s) := \<lparr>team = Some t, price = Some (StrV p)\<rparr>]
      in Inr (if current_index s < int (length riders) - 1
              then s\<lparr>current_index := current_index s + 1, results := rs\<rparr>
              else s\<lparr>results := rs\<rparr>))"
  by (simp add: handle_assignment_def Let_def getitem_in_range setitem_in_range
      update_display_in_range set_current_index_in_range in_range_def assignment_update_all)

lemma action_assign_in_range:
  "in_range riders s \<Longrightarrow>
   action_assign riders l p s = handle_assignment riders (confirm l p) s"
  by (simp add: action_assign_def getitem_in_range in_range_def)




lemma get_team_and_price_skip:
  "is_skip (strip line1) \<Longrightarrow> get_team_and_price line1 line2 = (None, None)"
  by (simp add: get_team_and_price_def)

lemma get_team_and_price_no_skip:
  "\<not> is_skip (strip line1) \<Longrightarrow>
   get_team_and_price line1 line2 = (Some (strip line1), Some (price_of_text (strip line2)))"
  by (simp add: get_team_and_price_def price_of_text_def Let_def)




lemma cli_step_active: "phase s = Active \<Longrightarrow> cli_step riders k s = loop_body riders k s"
  by (simp add: cli_step_def)

lemma confirm_empty: "strip l = [] \<Longrightarrow> confirm l p = None"
  by (simp add: confirm_def)

lemma confirm_nonempty: "strip l \<noteq> [] \<Longrightarrow> confirm l p = Some (strip l, strip p)"
  by (simp add: confirm_def)

lemma tui_step_assign:
  "in_range riders t \<Longrightarrow> phase t \<noteq> Ended \<Longrightarrow>
   tui_step riders (Assign l p) t = handle_assignment riders (confirm l p) t"
  by (simp add: tui_step_def action_assign_in_range)

text \<open>
  C2 (as amended): in the line-oriented front-end, an Assign whose label input is empty
  after trimming, or is one of the skip words in any letter case, sets both the label
  and the value at the cursor to unassigned, whatever was stored there before. In the
  widget-based front-end an Assign whose label input is empty after trimming leaves the
  session as it was, and a skip word is stored as an ordinary label.
\<close>

theorem skip_assign_effect:
  assumes "in_range riders s" and "phase s = Active"
    and "in_range triders t" and "phase t \<noteq> Ended"
    and "is_skip (strip line1)"
  shows "(\<exists>s'. cli_step riders (Assign line1 line2) s = Inr s'
            \<and> results s' = (results s)[nat (current_index s) := \<lparr>team = None, price = None\<rparr>])
       \<and> (if strip line1 = [] then tui_step triders (Assign line1 line2) t = Inr t
          else \<exists>t'. tui_step triders (Assign line1 line2) t = Inr t'
                 \<and> results t' = (results t)[nat (current_index t) :=
                      \<lparr>team = Some (strip line1), price = Some (StrV (strip line2))\<rparr>])"
proof -
  have "\<exists>s'. cli_step riders (Assign line1 line2) s = Inr s'
            \<and> results s' = (results s)[nat (current_index s) := \<lparr>team = None, price = None\<rparr>]"
    using assms(1,2,5)
    by (auto simp: cli_step_active loop_body_assign get_team_and_price_skip Let_def)
  moreover have "strip line1 = [] \<Longrightarrow> tui_step triders (Assign line1 line2) t = Inr t"
    using assms(3,4) by (simp add: tui_step_assign confirm_empty handle_assignment_None)
  moreover have "strip line1 \<noteq> [] \<Longrightarrow>
      \<exists>t'. tui_step triders (Assign line1 line2) t = Inr t'
         \<and> results t' = (results t)[nat (current_index t) :=
              \<lparr>team = Some (strip line1), price = Some (StrV (strip line2))\<rparr>]"
    using assms(3,4)
    by (auto simp: tui_step_assign confirm_nonempty handle_assignment_Some Let_def)
  ultimately show ?thesis by simp
qed

theorem skip_assign_effect_witness:
  "(\<exists>s'. cli_step [''A''] (Assign ''Skip'' ''9'')
            \<lparr>current_index = 0, results = [\<lparr>team = Some ''T'', price = Some (IntV 5)\<rparr>],
             phase = Active\<rparr> = Inr s'
        \<and> results s' = [\<lparr>team = None, price = None\<rparr>])
   \<and> (\<exists>t'. tui_step [RiderStr ''A'' :: pyval rider] (Assign ''Skip'' ''9'')
            \<lparr>current_index = 0, results = [\<lparr>team = Some ''T'', price = Some (StrV ''5'')\<rparr>],
             phase = Active\<rparr> = Inr t'
        \<and> results t' = [\<lparr>team = Some ''Skip'', price = Some (StrV ''9'')\<rparr>])"
proof -
  let ?s = "\<lparr>current_index = 0, results = [\<lparr>team = Some ''T'', price = Some (IntV 5)\<rparr>],
             phase = Active\<rparr>"
  let ?t = "\<lparr>current_index = 0, results = [\<lparr>team = Some ''T'', price = Some (StrV ''5'')\<rparr>],
             phase = Active\<rparr>"
  have a: "in_range [''A''] ?s" by (simp add: in_range_def)
  have b: "phase ?s = Active" by simp
  have c: "in_range [RiderStr ''A'' :: pyval rider] ?t" by (simp add: in_range_def)
  have d: "phase ?t \<noteq> Ended" by simp
  have e: "is_skip (strip ''Skip'')" by code_simp
  have f: "strip ''Skip'' = ''Skip''" by code_simp
  have g: "strip ''9'' = ''9''" by code_simp
  show ?thesis
    using skip_assign_effect [OF a b c d e, of "''9''"] by (simp add: f g)
qed

theorem tui_empty_label_keeps_assignment_counterexample:
  "tui_step [RiderStr ''A'' :: pyval rider] (Assign [] [])
     \<lparr>current_index = 0, results = [\<lparr>team = Some ''T'', price = Some (StrV ''5'')\<rparr>],
      phase = Active\<rparr>
   = Inr \<lparr>current_index = 0, results = [\<lparr>team = Some ''T'', price = Some (StrV ''5'')\<rparr>],
          phase = Active\<rparr>
   \<and> Some ''T'' \<noteq> (None :: string option)
   \<and> Some (StrV ''5'') \<noteq> (None :: pyval option)"
  by code_simp

text \<open>
  C3 (as amended): in the line-oriented front-end every Assign, skipped or not, moves
  the cursor forward by exactly 1 unless the cursor is at the last index, where it
  stays. In the widget-based front-end the cursor moves forward by exactly 1 exactly
  when the label input is not empty after trimming and the cursor is not at the last
  index; otherwise it stays.
\<close>

theorem assign_moves_cursor:
  assumes "in_range riders s" and "phase s = Active"
    and "in_range triders t" and "phase t \<noteq> Ended"
  shows "(\<exists>s'. cli_step riders (Assign line1 line2) s = Inr s'
            \<and> current_index s' =
                (if current_index s < int (length riders) - 1
                 then current_index s + 1 else current_index s))
       \<and> (\<exists>t'. tui_step triders (Assign line1 line2) t = Inr t'
            \<and> current_index t' =
                (if strip line1 \<noteq> [] \<and> current_index t < int (length triders) - 1
                 then current_index t + 1 else current_index t))"
proof -
  have "\<exists>s'. cli_step riders (Assign line1 line2) s = Inr s'
            \<and> current_index s' =
                (if current_index s < int (length riders) - 1
                 then current_index s + 1 else current_index s)"
    using assms(1,2) by (simp add: cli_step_active loop_body_assign Let_def)
  moreover have "\<exists>t'. tui_step triders (Assign line1 line2) t = Inr t'
            \<and> current_index t' =
                (if strip line1 \<noteq> [] \<and> current_index t < int (length triders) - 1
                 then current_index t + 1 else current_index t)"
  proof (cases "strip line1 = []")
    case True
    then show ?thesis using assms(3,4)
      by (simp add: tui_step_assign confirm_empty handle_assignment_None)
  next
    case False
    then show ?thesis using assms(3,4)
      by (simp add: tui_step_assign confirm_nonempty handle_assignment_Some Let_def)
  qed
  ultimately show ?thesis by blast
qed

theorem assign_moves_cursor_witness:
  "(\<exists>s'. cli_step [''A'', ''B''] (Assign ''T'' ''5'') (init_session [''A'', ''B'']) = Inr s'
        \<and> current_index s' = 1)
   \<and> (\<exists>t'. tui_step [RiderStr ''A'', RiderStr ''B'' :: pyval rider] (Assign ''T'' ''5'')
              (init_session [RiderStr ''A'', RiderStr ''B'' :: pyval rider]) = Inr t'
        \<and> current_index t' = 1)"
proof -
  have a: "in_range [''A'', ''B''] (init_session [''A'', ''B''])"
    by (simp add: in_range_init)
  have b: "phase (init_session [''A'', ''B'']) = Active" by (simp add: init_session_def)
  have c: "in_range [RiderStr ''A'', RiderStr ''B'' :: pyval rider]
             (init_session [RiderStr ''A'', RiderStr ''B'' :: pyval rider])"
    by (simp add: in_range_init)
  have d: "phase (init_session [RiderStr ''A'', RiderStr ''B'' :: pyval rider]) \<noteq> Ended"
    by (simp add: init_session_def)
  have e: "strip ''T'' = ''T''" by code_simp
  show ?thesis
    using assign_moves_cursor [OF a b c d, of "''T''" "''5''"]
    by (simp add: e init_session_def)
qed

theorem skip_advances_cursor_counterexample:
  "is_skip (strip []) \<and> current_index (init_session [''A'', ''B'']) = 0
   \<and> 0 < int (length [''A'', ''B'']) - 1
   \<and> cli_step [''A'', ''B''] (Assign [] []) (init_session [''A'', ''B''])
       = Inr \<lparr>current_index = 1,
              results = [\<lparr>team = None, price = None\<rparr>, \<lparr>team = None, price = None\<rparr>],
              phase = Active\<rparr>"
  by code_simp

text \<open>
  C8: in both front-ends and in every session, MoveUp with the cursor at 0 leaves the
  cursor at 0, and MoveDown with the cursor at the last index leaves it at the last
  index: navigation stops at the ends and does not wrap.
\<close>

theorem navigation_clamps:
  assumes "in_range riders s" and "in_range triders t"
  shows "(current_index s = 0 \<longrightarrow>
            (\<exists>s'. cli_step riders MoveUp s = Inr s' \<and> current_index s' = 0))
       \<and> (current_index s = int (length riders) - 1 \<longrightarrow>
            (\<exists>s'. cli_step riders MoveDown s = Inr s'
                \<and> current_index s' = int (length riders) - 1))
       \<and> (current_index t = 0 \<longrightarrow>
            (\<exists>t'. tui_step triders MoveUp t = Inr t' \<and> current_index t' = 0))
       \<and> (current_index t = int (length triders) - 1 \<longrightarrow>
            (\<exists>t'. tui_step triders MoveDown t = Inr t'
                \<and> current_index t' = int (length triders) - 1))"
proof -
  have "\<exists>s'. cli_step riders MoveUp s = Inr s' \<and> current_index s' = 0"
    if "current_index s = 0"
    using assms(1) that
    by (cases "phase s") (simp_all add: cli_step_def loop_body_move_up)
  moreover have "\<exists>s'. cli_step riders MoveDown s = Inr s'
      \<and> current_index s' = int (length riders) - 1"
    if "current_index s = int (length riders) - 1"
    using assms(1) that
    by (cases "phase s") (simp_all add: cli_step_def loop_body_move_down)
  moreover have "\<exists>t'. tui_step triders MoveUp t = Inr t' \<and> current_index t' = 0"
    if "current_index t = 0"
    using assms(2) that
    by (simp add: tui_step_def action_previous_rider_in_range)
  moreover have "\<exists>t'. tui_step triders MoveDown t = Inr t'
      \<and> current_index t' = int (length triders) - 1"
    if "current_index t = int (length triders) - 1"
    using assms(2) that
    by (simp add: tui_step_def action_next_rider_in_range)
  ultimately show ?thesis by blast
qed

theorem navigation_clamps_witness:
  "(\<exists>s'. cli_step [''A''] MoveUp (init_session [''A'']) = Inr s' \<and> current_index s' = 0)
   \<and> (\<exists>s'. cli_step [''A''] MoveDown (init_session [''A'']) = Inr s' \<and> current_index s' = 0)
   \<and> (\<exists>t'. tui_step [RiderStr ''A'' :: pyval rider] MoveUp
              (init_session [RiderStr ''A'' :: pyval rider]) = Inr t' \<and> current_index t' = 0)
   \<and> (\<exists>t'. tui_step [RiderStr ''A'' :: pyval rider] MoveDown
              (init_session [RiderStr ''A'' :: pyval rider]) = Inr t' \<and> current_index t' = 0)"
proof -
  have a: "in_range [''A''] (init_session [''A''])" by (simp add: in_range_init)
  have b: "in_range [RiderStr ''A'' :: pyval rider] (init_session [RiderStr ''A'' :: pyval rider])"
    by (simp add: in_range_init)
  have c: "current_index (init_session [''A'']) = 0"
    "current_index (init_session [RiderStr ''A'' :: pyval rider]) = 0"
    by (simp_all add: init_session_def)
  show ?thesis using navigation_clamps [OF a b] c by simp
qed








section \<open>Properties of the export\<close>

lemma result_rows_zip:
  "0 \<le> i \<Longrightarrow> nat i + length riders \<le> length res \<Longrightarrow>
   result_rows res riders i =
     Inr (map (\<lambda>(rider, r). [rider, team_cell (team r), csv_str (price_cell (price r))])
            (zip riders (drop (nat i) res)))"
proof (induction riders arbitrary: i)
  case Nil
  then show ?case by simp
next
  case (Cons rider rest)
  from Cons.prems have lt: "nat i < length res" by simp
  then have d: "drop (nat i) res = res ! nat i # drop (nat (i + 1)) res"
    using Cons.prems(1) by (simp add: Cons_nth_drop_Suc nat_add_distrib)
  have "result_rows res rest (i + 1) =
     Inr (map (\<lambda>(rider, r). [rider, team_cell (team r), csv_str (price_cell (price r))])
            (zip rest (drop (nat (i + 1)) res)))"
    using Cons.prems by (intro Cons.IH) (simp_all add: nat_add_distrib)
  then show ?case using Cons.prems(1) lt
    by (simp add: getitem_in_range d)
qed

lemma tui_result_rows_names:
  "tui_result_rows res riders i = result_rows res (map rider_name riders) i"
  by (induction riders arbitrary: i) (simp_all split: sum.splits)

lemma save_results_rows:
  assumes "length res = length riders"
  shows "save_results res riders =
     Inr (concat (map writerow
            (header # map2 (\<lambda>rider r. [rider, team_cell (team r), csv_str (price_cell (price r))])
                        riders res)))"
  using assms result_rows_zip [of 0 riders res] by (simp add: save_results_def)

lemma tui_save_results_names:
  "tui_save_results res riders = save_results res (map rider_name riders)"
  by (simp add: tui_save_results_def save_results_def tui_result_rows_names)

text \<open>
  C7: for every session, in both front-ends, the exported text is the header record
  with the three fields Corridore, Squadra, Prezzo followed by exactly one record per
  rider in rider order, holding the rider's name, the label and the value; an unassigned
  label or value is written as an empty field, so the record of an unassigned rider ends
  in two empty fields. Two riders, the first assigned TeamA and 500 and the second
  skipped, give the records \<open>Tadej POGACAR,TeamA,500\<close> and \<open>Jonas VINGEGAARD,,\<close>.
\<close>

theorem export_format:
  assumes "length res = length riders" and "length res = length triders"
  shows "save_results res riders =
           Inr (concat (map writerow
             ([''Corridore'', ''Squadra'', ''Prezzo'']
              # map2 (\<lambda>rider r. [rider, team_cell (team r), csv_str (price_cell (price r))])
                  riders res)))
       \<and> tui_save_results res triders =
           Inr (concat (map writerow
             ([''Corridore'', ''Squadra'', ''Prezzo'']
              # map2 (\<lambda>rider r. [rider, team_cell (team r), csv_str (price_cell (price r))])
                  (map rider_name triders) res)))
       \<and> team_cell None = [] \<and> csv_str (price_cell None) = []
       \<and> writerow [rider, [], []] = quote_field rider @ '',,'' @ [CR, LF]
       \<and> main ''input'' [''Tadej POGACAR'', ''Jonas VINGEGAARD'']
            [Assign ''TeamA'' ''500'', Assign [] [], Quit] []
          = Inr [(''input_auction_results.csv'',
                  ''Corridore,Squadra,Prezzo'' @ [CR, LF]
                  @ ''Tadej POGACAR,TeamA,500'' @ [CR, LF]
                  @ ''Jonas VINGEGAARD,,'' @ [CR, LF])]
       \<and> tui_main ''input'' [RiderStr ''Tadej POGACAR'', RiderStr ''Jonas VINGEGAARD'' :: pyval rider]
            [Assign ''TeamA'' ''500'', Assign [] [], Quit] []
          = Some (Inr [(''input_auction_results.csv'',
                  ''Corridore,Squadra,Prezzo'' @ [CR, LF]
                  @ ''Tadej POGACAR,TeamA,500'' @ [CR, LF]
                  @ ''Jonas VINGEGAARD,,'' @ [CR, LF])])"
proof -
  have a: "save_results res riders =
           Inr (concat (map writerow
             ([''Corridore'', ''Squadra'', ''Prezzo'']
              # map2 (\<lambda>rider r. [rider, team_cell (team r), csv_str (price_cell (price r))])
                  riders res)))"
    using save_results_rows [OF assms(1)] by (simp add: header_def)
  have b: "tui_save_results res triders =
           Inr (concat (map writerow
             ([''Corridore'', ''Squadra'', ''Prezzo'']
              # map2 (\<lambda>rider r. [rider, team_cell (team r), csv_str (price_cell (price r))])
                  (map rider_name triders) res)))"
    using save_results_rows [of res "map rider_name triders"] assms(2)
    by (simp add: tui_save_results_names header_def)
  have c: "writerow [rider, [], []] = quote_field rider @ '',,'' @ [CR, LF]"
    by (simp add: writerow_def quote_field_def needs_quoting_def COMMA_def)
  have d: "main ''input'' [''Tadej POGACAR'', ''Jonas VINGEGAARD'']
            [Assign ''TeamA'' ''500'', Assign [] [], Quit] []
          = Inr [(''input_auction_results.csv'',
                  ''Corridore,Squadra,Prezzo'' @ [CR, LF]
                  @ ''Tadej POGACAR,TeamA,500'' @ [CR, LF]
                  @ ''Jonas VINGEGAARD,,'' @ [CR, LF])]"
    by code_simp
  have e: "tui_main ''input'' [RiderStr ''Tadej POGACAR'', RiderStr ''Jonas VINGEGAARD'' :: pyval rider]
            [Assign ''TeamA'' ''500'', Assign [] [], Quit] []
          = Some (Inr [(''input_auction_results.csv'',
                  ''Corridore,Squadra,Prezzo'' @ [CR, LF]
                  @ ''Tadej POGACAR,TeamA,500'' @ [CR, LF]
                  @ ''Jonas VINGEGAARD,,'' @ [CR, LF])])"
    by code_simp
  show ?thesis using a b c d e by simp
qed

theorem export_format_witness:
  "save_results [\<lparr>team = Some ''TeamA'', price = Some (IntV 500)\<rparr>, \<lparr>team = None, price = None\<rparr>]
     [''Tadej POGACAR'', ''Jonas VINGEGAARD'']
   = Inr (''Corridore,Squadra,Prezzo'' @ [CR, LF]
          @ ''Tadej POGACAR,TeamA,500'' @ [CR, LF]
          @ ''Jonas VINGEGAARD,,'' @ [CR, LF])"
proof -
  let ?res = "[\<lparr>team = Some ''TeamA'', price = Some (IntV 500)\<rparr>, \<lparr>team = None, price = None\<rparr>]"
  let ?riders = "[''Tadej POGACAR'', ''Jonas VINGEGAARD'']"
  let ?triders = "[RiderStr ''Tadej POGACAR'', RiderStr ''Jonas VINGEGAARD'' :: pyval rider]"
  have a: "length ?res = length ?riders" by simp
  have b: "length ?res = length ?triders" by simp
  have c: "concat (map writerow
             ([''Corridore'', ''Squadra'', ''Prezzo'']
              # map2 (\<lambda>rider r. [rider, team_cell (team r), csv_str (price_cell (price r))])
                  ?riders ?res))
           = ''Corridore,Squadra,Prezzo'' @ [CR, LF]
             @ ''Tadej POGACAR,TeamA,500'' @ [CR, LF]
             @ ''Jonas VINGEGAARD,,'' @ [CR, LF]"
    by code_simp
  from export_format [OF a b] have
    "save_results ?res ?riders = Inr (concat (map writerow
             ([''Corridore'', ''Squadra'', ''Prezzo'']
              # map2 (\<lambda>rider r. [rider, team_cell (team r), csv_str (price_cell (price r))])
                  ?riders ?res)))"
    by (rule conjunct1)
  then show ?thesis by (simp only: c)
qed

lemma map2_cells:
  "map2 (\<lambda>rider r. [rider, team_cell (team r), csv_str (price_cell (price r))]) riders res
   = map (\<lambda>(rider, c). [rider, fst c, snd c])
       (zip riders (map (\<lambda>r. (team_cell (team r), csv_str (price_cell (price r)))) res))"
  by (simp add: zip_map2 case_prod_beta)

lemma save_results_cells:
  assumes "length res = length riders" and "length res' = length riders"
    and "map (\<lambda>r. (team_cell (team r), csv_str (price_cell (price r)))) res'
         = map (\<lambda>r. (team_cell (team r), csv_str (price_cell (price r)))) res"
  shows "save_results res' riders = save_results res riders"
  by (simp only: save_results_rows [OF assms(1)] save_results_rows [OF assms(2)]
      map2_cells assms(3))

text \<open>
  C10: an assignment whose stored value is the integer 0 is exported with an empty value
  field, so the exported text is the same as if that value were unassigned; a non-skip
  Assign with an empty price input in the line-oriented front-end stores exactly this
  integer 0.
\<close>

theorem zero_price_exported_empty:
  assumes "length res = length riders" and "length res = length triders"
    and "i < length res" and "price (res ! i) = Some (IntV 0)"
    and "\<not> is_skip (strip line1)"
  shows "csv_str (price_cell (Some (IntV 0))) = []
       \<and> save_results (res[i := (res ! i)\<lparr>price := None\<rparr>]) riders = save_results res riders
       \<and> tui_save_results (res[i := (res ! i)\<lparr>price := None\<rparr>]) triders
           = tui_save_results res triders
       \<and> get_team_and_price line1 [] = (Some (strip line1), Some (IntV 0))"
proof -
  let ?f = "\<lambda>r. (team_cell (team r), csv_str (price_cell (price r)))"
  let ?res' = "res[i := (res ! i)\<lparr>price := None\<rparr>]"
  have cells: "map ?f ?res' = map ?f res"
    using assms(3,4) by (simp add: map_update list_update_same_conv)
  have a: "save_results ?res' riders = save_results res riders"
    using assms(1) cells by (intro save_results_cells) simp_all
  have b: "tui_save_results ?res' triders = tui_save_results res triders"
    unfolding tui_save_results_names
    using assms(2) cells by (intro save_results_cells) simp_all
  have c: "get_team_and_price line1 [] = (Some (strip line1), Some (IntV 0))"
    using assms(5)
    by (simp add: get_team_and_price_no_skip price_of_text_def strip_def)
  show ?thesis using a b c by simp
qed

theorem zero_price_exported_empty_witness:
  "save_results [\<lparr>team = Some ''TeamA'', price = None\<rparr>] [''Tadej POGACAR'']
   = save_results [\<lparr>team = Some ''TeamA'', price = Some (IntV 0)\<rparr>] [''Tadej POGACAR'']
   \<and> get_team_and_price ''TeamA'' [] = (Some ''TeamA'', Some (IntV 0))"
proof -
  let ?res = "[\<lparr>team = Some ''TeamA'', price = Some (IntV 0)\<rparr>]"
  have a: "length ?res = length [''Tadej POGACAR'']" by simp
  have b: "length ?res = length [RiderStr ''Tadej POGACAR'' :: pyval rider]" by simp
  have c: "(0::nat) < length ?res" by simp
  have d: "price (?res ! 0) = Some (IntV 0)" by simp
  have e: "\<not> is_skip (strip ''TeamA'')" by code_simp
  have f: "strip ''TeamA'' = ''TeamA''" by code_simp
  show ?thesis
    using zero_price_exported_empty [OF a b c d e] by (simp add: f)
qed

section \<open>Properties of the output file name\<close>







lemma read_write_file:
  "read_file (write_file fs p text) q = (if q = p then Some text else read_file fs q)"
proof -
  have "map_of (filter (\<lambda>(q, t). q \<noteq> p) xs) q = (if q = p then None else map_of xs q)"
    for xs :: filesystem
    by (induction xs) auto
  then show ?thesis by (simp add: read_file_def write_file_def)
qed

lemma path_exists_read: "path_exists fs q = (read_file fs q \<noteq> None)"
  by (simp add: path_exists_def read_file_def map_of_eq_None_iff)

lemma write_free_name_keeps:
  "\<not> path_exists fs p \<Longrightarrow> path_exists fs q \<Longrightarrow> read_file (write_file fs p text) q = read_file fs q"
  by (auto simp: read_write_file)






end
